theory Spec2Isabelle
  imports Complex_Main "HOL-Library.Word"
begin

unbundle bit_operations_syntax

section \<open>The world the program runs in\<close>

text \<open>
  \<^verbatim>\<open>main.py\<close> is a command-line tool: everything it does goes through the operating
  system and the Python library. The model makes that world explicit. What the program
  is given (the file system, the faults of the devices, the platform's clock
  conversion) is the record \<open>env\<close>; what the program changes (the log, standard output,
  the files it writes, the handle it holds) is the record \<open>state\<close>. Every source function
  takes the environment and the state and returns the exception that escapes it, if any,
  with the new state. The library calls are those of CPython 3.12.
\<close>

subsection \<open>Exceptions\<close>

text \<open>
  An \<^verbatim>\<open>OSError\<close> carries its \<^verbatim>\<open>errno\<close> and the text of \<^verbatim>\<open>str(e)\<close>. Python picks the
  subclass from the number: an \<^verbatim>\<open>OSError\<close> is a \<^verbatim>\<open>FileNotFoundError\<close> exactly when its
  number is \<^verbatim>\<open>ENOENT\<close>. Any other exception (\<^verbatim>\<open>ValueError\<close>, \<^verbatim>\<open>OverflowError\<close>,
  \<^verbatim>\<open>UnicodeEncodeError\<close>) carries its text alone. The numbers are those of Linux.
\<close>

datatype os_error = OSError (errno: nat) (os_error_str: string)

abbreviation ENOENT :: nat where "ENOENT \<equiv> 2"
abbreviation EBADF :: nat where "EBADF \<equiv> 9"
abbreviation EACCES :: nat where "EACCES \<equiv> 13"
abbreviation ENOTDIR :: nat where "ENOTDIR \<equiv> 20"
abbreviation ELOOP :: nat where "ELOOP \<equiv> 40"

definition is_FileNotFoundError :: "os_error \<Rightarrow> bool" where
  "is_FileNotFoundError err = (errno err = ENOENT)"

datatype exn = OSErr os_error | OtherException string

fun exn_str :: "exn \<Rightarrow> string" where
  "exn_str (OSErr err) = os_error_str err"
| "exn_str (OtherException m) = m"

subsection \<open>Paths\<close>

text \<open>
  A \<^verbatim>\<open>pathlib.Path\<close> is the list of its components. \<^verbatim>\<open>str(p)\<close> joins them with a
  slash, \<^verbatim>\<open>p.name\<close> is the last one, and a child of \<open>p\<close> is \<open>p @ [name]\<close>.
\<close>

type_synonym path = "string list"

fun join :: "string \<Rightarrow> string list \<Rightarrow> string" where
  "join sep [] = []"
| "join sep [x] = x"
| "join sep (x # y # ys) = x @ sep @ join sep (y # ys)"

definition path_str :: "path \<Rightarrow> string" where
  "path_str p = join ''/'' p"

definition path_name :: "path \<Rightarrow> string" where
  "path_name p = (if p = [] then [] else last p)"

subsection \<open>The file system\<close>

text \<open>
  \<^verbatim>\<open>os.stat_result\<close>, with the fields the program reads. The three times are the
  floating-point seconds Python reports.
\<close>

record stat_result =
  st_mode :: nat
  st_size :: nat
  st_mtime :: real
  st_atime :: real
  st_ctime :: real
  st_uid :: nat
  st_gid :: nat

text \<open>
  The file system is a finite tree. A \<open>File\<close> is any entry that is neither a directory
  nor a link (its mode says whether it is regular, a socket, a device, a FIFO). A \<open>Dir\<close>
  carries its own status, the error that listing it raises (if it cannot be opened or
  listed) and its entries in the order the system enumerates them. A \<open>Symlink\<close> carries
  the link's own status and the node it points to; a \<open>BrokenLink\<close> is a link that cannot
  be followed: it carries the link's own status and the error that following it raises
  (\<^verbatim>\<open>ENOENT\<close> for a missing target, \<^verbatim>\<open>EACCES\<close> for a target inside a directory that may not
  be searched, \<^verbatim>\<open>ELOOP\<close> for a cycle).
\<close>

datatype node =
    File stat_result
  | Dir stat_result "os_error option" "(string \<times> node) list"
  | Symlink stat_result node
  | BrokenLink stat_result os_error

fun resolve :: "node \<Rightarrow> os_error + node" where
  "resolve (Symlink own target) = resolve target"
| "resolve (BrokenLink own err) = Inl err"
| "resolve n = Inr n"

fun status :: "node \<Rightarrow> stat_result" where
  "status (File st) = st"
| "status (Dir st le kids) = st"
| "status (Symlink own target) = own"
| "status (BrokenLink own err) = own"

text \<open>Walking a path from a node; links on the way are followed, the last component is not.\<close>

fun lookup :: "node \<Rightarrow> path \<Rightarrow> os_error + node" where
  "lookup n [] = Inr n"
| "lookup n (c # cs) =
     (case resolve n of
        Inl err \<Rightarrow> Inl err
      | Inr (Dir st le kids) \<Rightarrow>
          (case map_of kids c of
             None \<Rightarrow> Inl (OSError ENOENT ''[Errno 2] No such file or directory'')
           | Some k \<Rightarrow> lookup k cs)
      | Inr _ \<Rightarrow> Inl (OSError ENOTDIR ''[Errno 20] Not a directory''))"

text \<open>\<^verbatim>\<open>os.stat(p)\<close>: the status of what the path leads to, links followed.\<close>

definition fs_stat :: "node \<Rightarrow> path \<Rightarrow> os_error + stat_result" where
  "fs_stat tree p =
     (case lookup tree p of
        Inl err \<Rightarrow> Inl err
      | Inr n \<Rightarrow> (case resolve n of Inl err \<Rightarrow> Inl err | Inr m \<Rightarrow> Inr (status m)))"

text \<open>The file type bits of \<^verbatim>\<open>st_mode\<close> (\<^verbatim>\<open>stat.S_IFMT\<close> is octal 170000).\<close>

definition S_ISREG :: "nat \<Rightarrow> bool" where
  "S_ISREG m = (m AND 61440 = 32768)"

definition S_ISDIR :: "nat \<Rightarrow> bool" where
  "S_ISDIR m = (m AND 61440 = 16384)"

subsection \<open>The environment\<close>

text \<open>
  A naive \<^verbatim>\<open>datetime\<close>: the calendar fields of a local time.
\<close>

record datetime =
  year :: nat
  month :: nat
  day :: nat
  hour :: nat
  minute :: nat
  second :: nat
  microsecond :: nat

text \<open>
  \<^item> \<open>fs\<close>: the file system as the traversal sees it (\<^verbatim>\<open>exists\<close>, \<^verbatim>\<open>is_file\<close>,
    \<^verbatim>\<open>is_dir\<close>, \<^verbatim>\<open>iterdir\<close>, \<^verbatim>\<open>rglob\<close>);
  \<^item> \<open>at_inspection\<close>: what has happened to a path by the time \<^verbatim>\<open>get_file_metadata\<close>
    asks for its status: \<open>None\<close> when nothing has, \<open>Some err\<close> when the call raises \<open>err\<close>
    (the file was removed after it was enumerated, permission was withdrawn, the device
    failed);
  \<^item> \<open>fromtimestamp\<close>: \<^verbatim>\<open>datetime.datetime.fromtimestamp\<close>, the platform's conversion of
    epoch seconds to local time, or the exception it raises: \<^verbatim>\<open>ValueError\<close> or
    \<^verbatim>\<open>OverflowError\<close> for a time outside the years 1 to 9999, \<^verbatim>\<open>OSError\<close> when the
    platform's \<^verbatim>\<open>localtime\<close> fails (floating point and the time zone are not modelled);
  \<^item> \<open>write_fault\<close>: the exception, if any, that the \<open>n\<close>-th write to an output sink
    raises, counting the writes of the run from 0;
  \<^item> \<open>open_fault\<close>: the exception, if any, that opening a file for writing raises.
\<close>

record env =
  fs :: node
  at_inspection :: "path \<Rightarrow> os_error option"
  fromtimestamp :: "real \<Rightarrow> exn + datetime"
  write_fault :: "nat \<Rightarrow> exn option"
  open_fault :: "string \<Rightarrow> exn option"

subsection \<open>The state\<close>

datatype level = DEBUG | INFO | WARNING | ERROR

fun level_no :: "level \<Rightarrow> nat" where
  "level_no DEBUG = 10"
| "level_no INFO = 20"
| "level_no WARNING = 30"
| "level_no ERROR = 40"

datatype file_object = TextIOWrapper string

datatype handle_event = Acquired string | Released string

datatype call = ProcessFile path | ProcessDirectory path

text \<open>
  \<^item> \<open>log_level\<close>: the level of the root logger;
  \<^item> \<open>logged\<close>: the logging calls made, in order (the handler shows those at or above
    \<open>log_level\<close>, see \<open>shown\<close>);
  \<^item> \<open>stdout\<close>: the strings standard output has accepted;
  \<^item> \<open>files\<close>: for each file opened by the run, the strings it has accepted since it
    was opened (and truncated);
  \<^item> \<open>attempted\<close>: every string the program has handed to a sink, accepted or not;
  \<^item> \<open>handle_events\<close>: the acquisitions and releases of file handles, in order;
  \<^item> \<open>calls\<close>: the calls of \<^verbatim>\<open>process_file\<close> and \<^verbatim>\<open>process_directory\<close> made so far, in
    order, each with its path.
  The last three are a history of the run, kept so that properties can speak about it;
  the program never reads them.
\<close>

record state =
  log_level :: level
  logged :: "(level \<times> string) list"
  stdout :: "string list"
  files :: "string \<Rightarrow> string list option"
  attempted :: "string list"
  handle_events :: "handle_event list"
  calls :: "call list"

text \<open>\<^verbatim>\<open>logging.basicConfig(level=logging.INFO, ...)\<close>, and nothing written yet.\<close>

definition init_state :: state where
  "init_state =
     \<lparr>log_level = INFO, logged = [], stdout = [], files = (\<lambda>_. None), attempted = [],
      handle_events = [], calls = []\<rparr>"

definition logging_error :: "string \<Rightarrow> state \<Rightarrow> state" where
  "logging_error msg s = s\<lparr>logged := logged s @ [(ERROR, msg)]\<rparr>"

definition logging_warning :: "string \<Rightarrow> state \<Rightarrow> state" where
  "logging_warning msg s = s\<lparr>logged := logged s @ [(WARNING, msg)]\<rparr>"

definition shown :: "state \<Rightarrow> (level \<times> string) list" where
  "shown s = filter (\<lambda>r. level_no (log_level s) \<le> level_no (fst r)) (logged s)"

section \<open>The library calls the program makes\<close>

subsection \<open>pathlib\<close>

text \<open>
  \<^verbatim>\<open>Path.exists\<close>, \<^verbatim>\<open>Path.is_file\<close> and \<^verbatim>\<open>Path.is_dir\<close> ask for the status of the path,
  links followed. When the call fails they answer \<open>False\<close> for the errors pathlib ignores
  (\<^verbatim>\<open>_ignore_error\<close>: \<^verbatim>\<open>ENOENT\<close>, \<^verbatim>\<open>ENOTDIR\<close>, \<^verbatim>\<open>EBADF\<close>, \<^verbatim>\<open>ELOOP\<close>) and raise any other
  again.
\<close>

definition ignore_error :: "os_error \<Rightarrow> bool" where
  "ignore_error err = (errno err \<in> {ENOENT, ENOTDIR, EBADF, ELOOP})"

definition path_exists :: "env \<Rightarrow> path \<Rightarrow> os_error + bool" where
  "path_exists e p =
     (case fs_stat (fs e) p of
        Inl err \<Rightarrow> if ignore_error err then Inr False else Inl err
      | Inr st \<Rightarrow> Inr True)"

definition is_file :: "env \<Rightarrow> path \<Rightarrow> os_error + bool" where
  "is_file e p =
     (case fs_stat (fs e) p of
        Inl err \<Rightarrow> if ignore_error err then Inr False else Inl err
      | Inr st \<Rightarrow> Inr (S_ISREG (st_mode st)))"

definition is_dir :: "env \<Rightarrow> path \<Rightarrow> os_error + bool" where
  "is_dir e p =
     (case fs_stat (fs e) p of
        Inl err \<Rightarrow> if ignore_error err then Inr False else Inl err
      | Inr st \<Rightarrow> Inr (S_ISDIR (st_mode st)))"

text \<open>
  An enumeration is what a generator of paths does when it is run to its end: the paths
  it yields, in order, and the \<^verbatim>\<open>OSError\<close> it then raises, if any.
\<close>

type_synonym enumeration = "path list \<times> os_error option"

text \<open>
  \<^verbatim>\<open>Path.iterdir\<close> lists the directory before it yields anything: a directory that
  cannot be listed raises at once.
\<close>

definition iterdir :: "env \<Rightarrow> path \<Rightarrow> enumeration" where
  "iterdir e p =
     (case lookup (fs e) p of
        Inl err \<Rightarrow> ([], Some err)
      | Inr n \<Rightarrow>
          (case resolve n of
             Inl err \<Rightarrow> ([], Some err)
           | Inr (Dir st le kids) \<Rightarrow>
               (case le of
                  Some err \<Rightarrow> ([], Some err)
                | None \<Rightarrow> (map (\<lambda>k. p @ [fst k]) kids, None))
           | Inr _ \<Rightarrow> ([], Some (OSError ENOTDIR ''[Errno 20] Not a directory''))))"

text \<open>
  \<^verbatim>\<open>Path.rglob("*")\<close> yields every entry below the directory: the entries of the
  directory, then those of each of its subdirectories in turn. It does not descend into
  a symbolic link, and a directory that it cannot list is passed over without an
  exception: pathlib's selectors swallow the error of \<^verbatim>\<open>scandir\<close>.
\<close>

fun rglob_node :: "path \<Rightarrow> node \<Rightarrow> path list" where
  "rglob_node p (Dir st le kids) =
     (case le of
        Some err \<Rightarrow> []
      | None \<Rightarrow> map (\<lambda>k. p @ [fst k]) kids @
                concat (map (\<lambda>k. rglob_node (p @ [fst k]) (snd k)) kids))"
| "rglob_node p n = []"

text \<open>
  The selectors start by asking whether the path is a directory (\<^verbatim>\<open>select_from\<close>): the
  generator raises what \<^verbatim>\<open>is_dir\<close> raises and yields nothing for what is not a directory.
\<close>

definition rglob :: "env \<Rightarrow> path \<Rightarrow> enumeration" where
  "rglob e p =
     (case is_dir e p of
        Inl err \<Rightarrow> ([], Some err)
      | Inr b \<Rightarrow>
          if \<not> b then ([], None)
          else
            (case lookup (fs e) p of
               Inl err \<Rightarrow> ([], None)
             | Inr n \<Rightarrow>
                 (case resolve n of Inl err \<Rightarrow> ([], None) | Inr m \<Rightarrow> (rglob_node p m, None))))"

text \<open>
  \<^verbatim>\<open>file_path.stat()\<close> as \<^verbatim>\<open>get_file_metadata\<close> calls it, after the path was enumerated.
\<close>

definition path_stat :: "env \<Rightarrow> path \<Rightarrow> os_error + stat_result" where
  "path_stat e p = (case at_inspection e p of Some err \<Rightarrow> Inl err | None \<Rightarrow> fs_stat (fs e) p)"

subsection \<open>Rendering\<close>

text \<open>\<^verbatim>\<open>str(n)\<close> of a non-negative integer, as an f-string formats it.\<close>

definition digit :: "nat \<Rightarrow> char" where
  "digit d = ''0123456789'' ! d"

fun str_nat :: "nat \<Rightarrow> string" where
  "str_nat n = (if n < 10 then [digit n] else str_nat (n div 10) @ [digit (n mod 10)])"

declare str_nat.simps [simp del]

text \<open>
  \<^verbatim>\<open>datetime.isoformat()\<close> of a naive datetime:
  \<^verbatim>\<open>"%04d-%02d-%02dT%02d:%02d:%02d"\<close>, then \<^verbatim>\<open>".%06d"\<close> of the microseconds when they
  are not zero.
\<close>

definition zfill :: "nat \<Rightarrow> nat \<Rightarrow> string" where
  "zfill w n = replicate (w - length (str_nat n)) (CHR ''0'') @ str_nat n"

definition isoformat :: "datetime \<Rightarrow> string" where
  "isoformat d =
     zfill 4 (year d) @ ''-'' @ zfill 2 (month d) @ ''-'' @ zfill 2 (day d) @ ''T'' @
     zfill 2 (hour d) @ '':'' @ zfill 2 (minute d) @ '':'' @ zfill 2 (second d) @
     (if microsecond d = 0 then [] else ''.'' @ zfill 6 (microsecond d))"

text \<open>
  \<^verbatim>\<open>stat.filemode\<close>: one character for the file type, then nine for the permission bits.
  Each position takes the first entry of its table whose bits are all set in the mode
  (Lib/stat.py, \<^verbatim>\<open>_filemode_table\<close>; the bit values are those of POSIX, written in
  decimal).
\<close>

definition has_bits :: "nat \<Rightarrow> nat \<Rightarrow> bool" where
  "has_bits m b = (m AND b = b)"

fun first_match :: "nat \<Rightarrow> (nat \<times> char) list \<Rightarrow> char \<Rightarrow> char" where
  "first_match m [] d = d"
| "first_match m ((b, c) # t) d = (if has_bits m b then c else first_match m t d)"

definition filemode :: "nat \<Rightarrow> string" where
  "filemode m =
     [first_match m [(40960, CHR ''l''), (49152, CHR ''s''), (32768, CHR ''-''),
                     (24576, CHR ''b''), (16384, CHR ''d''), (8192, CHR ''c''),
                     (4096, CHR ''p'')] (CHR ''?''),
      first_match m [(256, CHR ''r'')] (CHR ''-''),
      first_match m [(128, CHR ''w'')] (CHR ''-''),
      first_match m [(64 + 2048, CHR ''s''), (2048, CHR ''S''), (64, CHR ''x'')] (CHR ''-''),
      first_match m [(32, CHR ''r'')] (CHR ''-''),
      first_match m [(16, CHR ''w'')] (CHR ''-''),
      first_match m [(8 + 1024, CHR ''s''), (1024, CHR ''S''), (8, CHR ''x'')] (CHR ''-''),
      first_match m [(4, CHR ''r'')] (CHR ''-''),
      first_match m [(2, CHR ''w'')] (CHR ''-''),
      first_match m [(1 + 512, CHR ''t''), (512, CHR ''T''), (1, CHR ''x'')] (CHR ''-'')]"

subsection \<open>Sinks\<close>

text \<open>
  \<^verbatim>\<open>open(name, "w", encoding="utf-8")\<close>: raises what the environment says, or creates
  (truncates) the file and hands out its handle.
\<close>

definition open_w :: "env \<Rightarrow> string \<Rightarrow> state \<Rightarrow> (exn + file_object) \<times> state" where
  "open_w e name s =
     (case open_fault e name of
        Some x \<Rightarrow> (Inl x, s)
      | None \<Rightarrow>
          (Inr (TextIOWrapper name),
           s\<lparr>files := (files s)(name \<mapsto> []),
             handle_events := handle_events s @ [Acquired name]\<rparr>))"

fun file_close :: "file_object \<Rightarrow> state \<Rightarrow> state" where
  "file_close (TextIOWrapper name) s = s\<lparr>handle_events := handle_events s @ [Released name]\<rparr>"

text \<open>
  \<^verbatim>\<open>output_file.write(text)\<close> and \<^verbatim>\<open>print(text, end="")\<close>: the text is handed to the sink;
  the sink raises what the environment says for this write, or accepts the text.
\<close>

fun file_write :: "env \<Rightarrow> file_object \<Rightarrow> string \<Rightarrow> state \<Rightarrow> exn option \<times> state" where
  "file_write e (TextIOWrapper name) txt s =
     (let s1 = s\<lparr>attempted := attempted s @ [txt]\<rparr> in
      case write_fault e (length (attempted s)) of
        Some x \<Rightarrow> (Some x, s1)
      | None \<Rightarrow>
          (None, s1\<lparr>files := (files s1)(name \<mapsto> (case files s1 name of None \<Rightarrow> [] | Some ls \<Rightarrow> ls) @ [txt])\<rparr>))"

definition print_stdout :: "env \<Rightarrow> string \<Rightarrow> state \<Rightarrow> exn option \<times> state" where
  "print_stdout e txt s =
     (let s1 = s\<lparr>attempted := attempted s @ [txt]\<rparr> in
      case write_fault e (length (attempted s)) of
        Some x \<Rightarrow> (Some x, s1)
      | None \<Rightarrow> (None, s1\<lparr>stdout := stdout s1 @ [txt]\<rparr>))"

section \<open>The program\<close>

subsection \<open>\<^verbatim>\<open>get_file_metadata\<close>\<close>

text \<open>The dictionary the function returns has a fixed set of keys: a record.\<close>

record metadata =
  file_path :: string
  file_name :: string
  file_size :: nat
  modified_time :: string
  accessed_time :: string
  created_time :: string
  permissions :: string
  owner_uid :: nat
  owner_gid :: nat

text \<open>
  The dictionary display, evaluated in the order it is written: the three conversions of
  the times are made in turn, and the first that raises ends the evaluation.
\<close>

definition build_metadata :: "env \<Rightarrow> path \<Rightarrow> stat_result \<Rightarrow> exn + metadata" where
  "build_metadata e p stat_info =
     (case fromtimestamp e (st_mtime stat_info) of
        Inl x \<Rightarrow> Inl x
      | Inr mtime \<Rightarrow>
     (case fromtimestamp e (st_atime stat_info) of
        Inl x \<Rightarrow> Inl x
      | Inr atime \<Rightarrow>
     (case fromtimestamp e (st_ctime stat_info) of
        Inl x \<Rightarrow> Inl x
      | Inr ctime \<Rightarrow>
          Inr \<lparr>file_path = path_str p,
               file_name = path_name p,
               file_size = st_size stat_info,
               modified_time = isoformat mtime,
               accessed_time = isoformat atime,
               created_time = isoformat ctime,
               permissions = filemode (st_mode stat_info),
               owner_uid = st_uid stat_info,
               owner_gid = st_gid stat_info\<rparr>)))"

text \<open>The body of the \<^verbatim>\<open>try\<close> block: the status is asked for once, then the dictionary is built.\<close>

definition try_metadata :: "env \<Rightarrow> path \<Rightarrow> exn + metadata" where
  "try_metadata e p =
     (case path_stat e p of
        Inl err \<Rightarrow> Inl (OSErr err)
      | Inr stat_info \<Rightarrow> build_metadata e p stat_info)"

text \<open>
  The handlers: \<^verbatim>\<open>FileNotFoundError\<close> first, then any other \<^verbatim>\<open>OSError\<close>; both are logged and
  answered with \<^verbatim>\<open>None\<close>. An exception of another class leaves the function.
\<close>

definition get_file_metadata ::
    "env \<Rightarrow> path \<Rightarrow> state \<Rightarrow> (exn + metadata option) \<times> state" where
  "get_file_metadata e p s =
     (case try_metadata e p of
        Inr md \<Rightarrow> (Inr (Some md), s)
      | Inl (OSErr err) \<Rightarrow>
          if is_FileNotFoundError err
          then (Inr None, logging_error (''File not found: '' @ path_str p) s)
          else (Inr None,
                logging_error (''Error accessing file '' @ path_str p @ '': '' @
                               os_error_str err) s)
      | Inl (OtherException m) \<Rightarrow> (Inl (OtherException m), s))"

subsection \<open>\<^verbatim>\<open>process_file\<close>\<close>

text \<open>The f-string of the source, piece by piece.\<close>

definition output_string :: "metadata \<Rightarrow> string" where
  "output_string md =
     modified_time md @ '','' @ accessed_time md @ '','' @ created_time md @ '','' @
     file_path md @ '','' @ file_name md @ '','' @ str_nat (file_size md) @ '','' @
     permissions md @ '','' @ str_nat (owner_uid md) @ '','' @ str_nat (owner_gid md) @
     [CHR 0x0A]"

text \<open>
  What follows the call of \<^verbatim>\<open>get_file_metadata\<close>. A file object is given: the write is
  inside \<^verbatim>\<open>try\<close>/\<^verbatim>\<open>except Exception\<close>. None is given: \<^verbatim>\<open>print\<close> is called bare, and what it
  raises leaves the function.
\<close>

definition emit ::
    "env \<Rightarrow> path \<Rightarrow> file_object option \<Rightarrow> metadata option \<Rightarrow> state \<Rightarrow> exn option \<times> state" where
  "emit e p output_file metadata s =
     (case metadata of
        Some md \<Rightarrow>
          (case output_file of
             Some f \<Rightarrow>
               (case file_write e f (output_string md) s of
                  (Some x, s2) \<Rightarrow>
                    (None, logging_error (''Error writing to output file: '' @ exn_str x) s2)
                | (None, s2) \<Rightarrow> (None, s2))
           | None \<Rightarrow> print_stdout e (output_string md) s)
      | None \<Rightarrow> (None, logging_warning (''Could not process file: '' @ path_str p) s))"

text \<open>The call is entered in the history; an exception of \<^verbatim>\<open>get_file_metadata\<close> passes through.\<close>

definition process_file :: "env \<Rightarrow> path \<Rightarrow> file_object option \<Rightarrow> state \<Rightarrow> exn option \<times> state" where
  "process_file e p output_file s =
     (case get_file_metadata e p (s\<lparr>calls := calls s @ [ProcessFile p]\<rparr>) of
        (Inl x, s1) \<Rightarrow> (Some x, s1)
      | (Inr metadata, s1) \<Rightarrow> emit e p output_file metadata s1)"

subsection \<open>\<^verbatim>\<open>process_directory\<close>\<close>

text \<open>
  The body of either \<^verbatim>\<open>for\<close> loop, run over the paths the generator yields: a path that
  is a regular file is processed, any other is passed over; an exception that leaves
  \<^verbatim>\<open>is_file\<close> or \<^verbatim>\<open>process_file\<close> ends the loop.
\<close>

fun for_files :: "env \<Rightarrow> path list \<Rightarrow> file_object option \<Rightarrow> state \<Rightarrow> exn option \<times> state" where
  "for_files e [] output_file s = (None, s)"
| "for_files e (p # ps) output_file s =
     (case is_file e p of
        Inl err \<Rightarrow> (Some (OSErr err), s)
      | Inr b \<Rightarrow>
          if b then
            (case process_file e p output_file s of
               (Some x, s1) \<Rightarrow> (Some x, s1)
             | (None, s1) \<Rightarrow> for_files e ps output_file s1)
          else for_files e ps output_file s)"

text \<open>
  The \<^verbatim>\<open>for\<close> statement over a generator: the body runs on each path yielded; when the
  generator then raises, the statement raises.
\<close>

definition for_loop ::
    "env \<Rightarrow> enumeration \<Rightarrow> file_object option \<Rightarrow> state \<Rightarrow> exn option \<times> state" where
  "for_loop e en output_file s =
     (case for_files e (fst en) output_file s of
        (Some x, s1) \<Rightarrow> (Some x, s1)
      | (None, s1) \<Rightarrow>
          (case snd en of Some err \<Rightarrow> (Some (OSErr err), s1) | None \<Rightarrow> (None, s1)))"

text \<open>
  \<^verbatim>\<open>except OSError as e\<close>: an \<^verbatim>\<open>OSError\<close> is logged against \<^verbatim>\<open>dir_path\<close> and the
  function ends; any other exception leaves it.
\<close>

definition except_OSError :: "path \<Rightarrow> exn option \<times> state \<Rightarrow> exn option \<times> state" where
  "except_OSError dir_path r =
     (case r of
        (Some (OSErr err), s1) \<Rightarrow>
          (None, logging_error (''Error accessing directory '' @ path_str dir_path @ '': '' @
                                os_error_str err) s1)
      | (Some x, s1) \<Rightarrow> (Some x, s1)
      | (None, s1) \<Rightarrow> (None, s1))"

text \<open>One \<^verbatim>\<open>try\<close> encloses both loops. The call is entered in the history.\<close>

definition process_directory ::
    "env \<Rightarrow> path \<Rightarrow> bool \<Rightarrow> file_object option \<Rightarrow> state \<Rightarrow> exn option \<times> state" where
  "process_directory e dir_path recursive output_file s =
     except_OSError dir_path
       (for_loop e (if recursive then rglob e dir_path else iterdir e dir_path) output_file
          (s\<lparr>calls := calls s @ [ProcessDirectory dir_path]\<rparr>))"

subsection \<open>\<^verbatim>\<open>main\<close>\<close>

text \<open>
  The parsed command line. The positional argument is held as the path it is turned
  into; \<^verbatim>\<open>-o\<close> is absent or names a file.
\<close>

record args =
  arg_path :: path
  arg_recursive :: bool
  arg_output :: "string option"
  arg_verbose :: bool

text \<open>
  How a run ends: \<open>Completed\<close> when \<^verbatim>\<open>main\<close> returns, at one of its \<^verbatim>\<open>return\<close> statements or
  at its end (the caller cannot tell which), \<open>Crashed\<close> when an exception leaves it.
\<close>

datatype ending = Completed | Crashed exn

text \<open>The \<^verbatim>\<open>if\<close>/\<^verbatim>\<open>elif\<close>/\<^verbatim>\<open>else\<close> inside the last \<^verbatim>\<open>try\<close>.\<close>

definition dispatch ::
    "env \<Rightarrow> path \<Rightarrow> bool \<Rightarrow> file_object option \<Rightarrow> state \<Rightarrow> exn option \<times> state" where
  "dispatch e p recursive output_file s =
     (case is_file e p of
        Inl err \<Rightarrow> (Some (OSErr err), s)
      | Inr f \<Rightarrow>
          if f then process_file e p output_file s
          else
            (case is_dir e p of
               Inl err \<Rightarrow> (Some (OSErr err), s)
             | Inr d \<Rightarrow>
                 if d then process_directory e p recursive output_file s
                 else (None, logging_error ''Invalid path type.  Must be a file or directory.'' s)))"

text \<open>The \<^verbatim>\<open>finally\<close> clause: the handle, when there is one, is closed.\<close>

definition finally_close :: "file_object option \<Rightarrow> exn option \<times> state \<Rightarrow> ending \<times> state" where
  "finally_close output_file_object r =
     ((case fst r of None \<Rightarrow> Completed | Some x \<Rightarrow> Crashed x),
      (case output_file_object of Some f \<Rightarrow> file_close f (snd r) | None \<Rightarrow> snd r))"

text \<open>
  \<^verbatim>\<open>if args.output:\<close> is false for an absent and for an empty name.
\<close>

definition output_name :: "args \<Rightarrow> string option" where
  "output_name a =
     (case arg_output a of None \<Rightarrow> None | Some name \<Rightarrow> if name \<noteq> [] then Some name else None)"

text \<open>
  \<^verbatim>\<open>path.exists()\<close> is called outside any \<^verbatim>\<open>try\<close>: what it raises leaves \<^verbatim>\<open>main\<close>.
\<close>

definition main :: "env \<Rightarrow> args \<Rightarrow> ending \<times> state" where
  "main e a =
     (let s0 = (if arg_verbose a then init_state\<lparr>log_level := DEBUG\<rparr> else init_state) in
      case path_exists e (arg_path a) of
        Inl err \<Rightarrow> (Crashed (OSErr err), s0)
      | Inr ex \<Rightarrow>
          if \<not> ex then
            (Completed, logging_error (''Path does not exist: '' @ path_str (arg_path a)) s0)
          else
            (case output_name a of
               None \<Rightarrow> finally_close None (dispatch e (arg_path a) (arg_recursive a) None s0)
             | Some name \<Rightarrow>
                 (case open_w e name s0 of
                    (Inl x, s1) \<Rightarrow>
                      (Completed, logging_error (''Error opening output file: '' @ exn_str x) s1)
                  | (Inr f, s1) \<Rightarrow>
                      finally_close (Some f)
                        (dispatch e (arg_path a) (arg_recursive a) (Some f) s1))))"

section \<open>Notions the properties are stated with\<close>

text \<open>The data a sink has accepted: standard output, or the file behind the handle.\<close>

fun sink_content :: "file_object option \<Rightarrow> state \<Rightarrow> string list" where
  "sink_content None s = stdout s"
| "sink_content (Some (TextIOWrapper name)) s = (case files s name of None \<Rightarrow> [] | Some ls \<Rightarrow> ls)"



text \<open>\<^verbatim>\<open>is_file\<close> answers on every path of a list: it raises on none.\<close>

definition is_file_answers :: "env \<Rightarrow> path list \<Rightarrow> bool" where
  "is_file_answers e ps = (\<forall>p \<in> set ps. \<exists>b. is_file e p = Inr b)"

text \<open>The paths of a list that \<^verbatim>\<open>is_file\<close> answers \<open>True\<close> on, in order.\<close>

definition regular_paths :: "env \<Rightarrow> path list \<Rightarrow> path list" where
  "regular_paths e ps = filter (\<lambda>p. is_file e p = Inr True) ps"

text \<open>
  The line of a path: the serialised record when its status can be read at inspection
  time and its times convert, nothing otherwise.
\<close>

definition line_of :: "env \<Rightarrow> path \<Rightarrow> string option" where
  "line_of e p = (case try_metadata e p of Inl x \<Rightarrow> None | Inr md \<Rightarrow> Some (output_string md))"

definition lines_of :: "env \<Rightarrow> path list \<Rightarrow> string list" where
  "lines_of e ps = List.map_filter (line_of e) ps"

text \<open>What \<^verbatim>\<open>get_file_metadata\<close> logs for an \<^verbatim>\<open>OSError\<close>.\<close>

definition stat_failure_message :: "path \<Rightarrow> os_error \<Rightarrow> string" where
  "stat_failure_message p err =
     (if errno err = ENOENT then ''File not found: '' @ path_str p
      else ''Error accessing file '' @ path_str p @ '': '' @ os_error_str err)"






text \<open>\<^verbatim>\<open>line.split(sep)\<close>.\<close>

fun split_on :: "char \<Rightarrow> string \<Rightarrow> string list" where
  "split_on c [] = [[]]"
| "split_on c (x # xs) =
     (if x = c then [] # split_on c xs
      else (case split_on c xs of [] \<Rightarrow> [[x]] | w # ws \<Rightarrow> (x # w) # ws))"

text \<open>
  The fields of a datetime are in the ranges the \<^verbatim>\<open>datetime\<close> class keeps them in (the
  length of the month is not looked at).
\<close>

definition valid_datetime :: "datetime \<Rightarrow> bool" where
  "valid_datetime d =
     (1 \<le> year d \<and> year d \<le> 9999 \<and> 1 \<le> month d \<and> month d \<le> 12 \<and> 1 \<le> day d \<and> day d \<le> 31 \<and>
      hour d < 24 \<and> minute d < 60 \<and> second d < 60 \<and> microsecond d < 1000000)"

text \<open>
  Parsing a date back: \<^verbatim>\<open>YYYY-MM-DDTHH:MM:SS\<close>, optionally followed by a dot and six
  digits, every field in its range.
\<close>

definition is_digit :: "char \<Rightarrow> bool" where
  "is_digit c = (c \<in> set ''0123456789'')"

definition digit_val :: "char \<Rightarrow> nat" where
  "digit_val c = of_char c - 48"

definition nat_of_digits :: "string \<Rightarrow> nat" where
  "nat_of_digits ds = foldl (\<lambda>a c. 10 * a + digit_val c) 0 ds"

definition take_number :: "nat \<Rightarrow> string \<Rightarrow> (nat \<times> string) option" where
  "take_number w s =
     (if w \<le> length s \<and> list_all is_digit (take w s)
      then Some (nat_of_digits (take w s), drop w s) else None)"

fun expect :: "char \<Rightarrow> string \<Rightarrow> string option" where
  "expect c [] = None"
| "expect c (x # xs) = (if x = c then Some xs else None)"

definition fromisoformat :: "string \<Rightarrow> datetime option" where
  "fromisoformat s0 =
     Option.bind (take_number 4 s0) (\<lambda>(y, s1).
     Option.bind (expect (CHR ''-'') s1) (\<lambda>s2.
     Option.bind (take_number 2 s2) (\<lambda>(mo, s3).
     Option.bind (expect (CHR ''-'') s3) (\<lambda>s4.
     Option.bind (take_number 2 s4) (\<lambda>(dd, s5).
     Option.bind (expect (CHR ''T'') s5) (\<lambda>s6.
     Option.bind (take_number 2 s6) (\<lambda>(hh, s7).
     Option.bind (expect (CHR '':'') s7) (\<lambda>s8.
     Option.bind (take_number 2 s8) (\<lambda>(mi, s9).
     Option.bind (expect (CHR '':'') s9) (\<lambda>s10.
     Option.bind (take_number 2 s10) (\<lambda>(ss, s11).
     Option.bind
       (if s11 = [] then Some 0
        else Option.bind (expect (CHR ''.'') s11) (\<lambda>s12.
             Option.bind (take_number 6 s12) (\<lambda>(us, s13).
             if s13 = [] then Some us else None)))
       (\<lambda>us.
          (let d = \<lparr>year = y, month = mo, day = dd, hour = hh, minute = mi, second = ss,
                    microsecond = us\<rparr>
           in if valid_datetime d then Some d else None)))))))))))))"






section \<open>Sample runs\<close>

text \<open>
  A small file system on which the theorems below are exercised: a directory \<^verbatim>\<open>d\<close>
  holding two regular files (one with a comma in its name), a subdirectory with one file,
  a directory that cannot be listed, a link to a regular file, a link to nothing, a file
  that is removed before it is inspected, and a FIFO.
\<close>

definition reg_stat :: "nat \<Rightarrow> stat_result" where
  "reg_stat n =
     \<lparr>st_mode = 33188, st_size = n, st_mtime = 1700000000, st_atime = 1700000100,
      st_ctime = 1700000200, st_uid = 1000, st_gid = 100\<rparr>"

definition dir_stat :: stat_result where
  "dir_stat =
     \<lparr>st_mode = 16877, st_size = 4096, st_mtime = 1700000000, st_atime = 1700000100,
      st_ctime = 1700000200, st_uid = 1000, st_gid = 100\<rparr>"

definition lnk_stat :: stat_result where
  "lnk_stat =
     \<lparr>st_mode = 41471, st_size = 5, st_mtime = 1700000000, st_atime = 1700000100,
      st_ctime = 1700000200, st_uid = 0, st_gid = 0\<rparr>"

definition fifo_stat :: stat_result where
  "fifo_stat =
     \<lparr>st_mode = 4516, st_size = 0, st_mtime = 1700000000, st_atime = 1700000100,
      st_ctime = 1700000200, st_uid = 1000, st_gid = 100\<rparr>"

definition sample_entries :: "(string \<times> node) list" where
  "sample_entries =
       [(''a.txt'', File (reg_stat 12)),
        (''sub'', Dir dir_stat None [(''c.txt'', File (reg_stat 7))]),
        (''locked'', Dir dir_stat (Some (OSError EACCES ''[Errno 13] Permission denied''))
                       [(''hidden.txt'', File (reg_stat 1))]),
        (''b,c.txt'', File (reg_stat 0)),
        (''ln'', Symlink lnk_stat (File (reg_stat 99))),
        (''dead'', BrokenLink lnk_stat (OSError ENOENT ''[Errno 2] No such file or directory'')),
        (''gone.txt'', File (reg_stat 3)),
        (''pipe'', File fifo_stat)]"

definition sample_dir :: node where
  "sample_dir = Dir dir_stat None sample_entries"

text \<open>
  A second directory \<^verbatim>\<open>g\<close>: two regular files, and between them a link into a directory
  that the user may not search, so that asking for its status raises \<^verbatim>\<open>PermissionError\<close>.
\<close>

definition guarded_dir :: node where
  "guarded_dir =
     Dir dir_stat None
       [(''a.txt'', File (reg_stat 12)),
        (''vault'', BrokenLink lnk_stat (OSError EACCES ''[Errno 13] Permission denied'')),
        (''z.txt'', File (reg_stat 5))]"

definition sample_tree :: node where
  "sample_tree = Dir dir_stat None [(''d'', sample_dir), (''g'', guarded_dir)]"

definition sample_time :: "real \<Rightarrow> datetime" where
  "sample_time t =
     (if t = 1700000000
      then \<lparr>year = 2023, month = 11, day = 14, hour = 22, minute = 13, second = 20,
            microsecond = 0\<rparr>
      else \<lparr>year = 2023, month = 11, day = 14, hour = 22, minute = 15, second = 0,
            microsecond = 250000\<rparr>)"

definition sample_env :: env where
  "sample_env =
     \<lparr>fs = sample_tree,
      at_inspection =
        (\<lambda>p. if p = [''d'', ''gone.txt'']
             then Some (OSError ENOENT ''[Errno 2] No such file or directory'') else None),
      fromtimestamp = (\<lambda>t. Inr (sample_time t)),
      write_fault = (\<lambda>n. None),
      open_fault =
        (\<lambda>name. if name = ''/ro/out.csv''
                then Some (OSErr (OSError 30 ''[Errno 30] Read-only file system'')) else None)\<rparr>"

text \<open>The same, with a sink that refuses the first write of the run.\<close>

definition broken_pipe :: exn where
  "broken_pipe = OSErr (OSError 32 ''[Errno 32] Broken pipe'')"

definition failing_env :: env where
  "failing_env = sample_env\<lparr>write_fault := (\<lambda>n. if n = 0 then Some broken_pipe else None)\<rparr>"

definition sample_args :: args where
  "sample_args = \<lparr>arg_path = [''d''], arg_recursive = False, arg_output = None, arg_verbose = False\<rparr>"

section \<open>The log level is left alone\<close>

text \<open>
  Nothing below \<^verbatim>\<open>main\<close> reads or changes the level of the logger: every function commutes
  with setting it.
\<close>

lemma get_file_metadata_level:
  "get_file_metadata e p (s\<lparr>log_level := l\<rparr>) =
     (fst (get_file_metadata e p s), (snd (get_file_metadata e p s))\<lparr>log_level := l\<rparr>)"
  by (simp add: get_file_metadata_def logging_error_def split: sum.splits exn.splits)

lemma file_write_level:
  "file_write e f txt (s\<lparr>log_level := l\<rparr>) =
     (fst (file_write e f txt s), (snd (file_write e f txt s))\<lparr>log_level := l\<rparr>)"
  by (cases f) (simp add: Let_def split: option.splits)

lemma print_stdout_level:
  "print_stdout e txt (s\<lparr>log_level := l\<rparr>) =
     (fst (print_stdout e txt s), (snd (print_stdout e txt s))\<lparr>log_level := l\<rparr>)"
  by (simp add: print_stdout_def Let_def split: option.splits)

lemma emit_level:
  "emit e p out md (s\<lparr>log_level := l\<rparr>) =
     (fst (emit e p out md s), (snd (emit e p out md s))\<lparr>log_level := l\<rparr>)"
  unfolding emit_def
  by (simp add: file_write_level print_stdout_level logging_error_def logging_warning_def
           split: prod.splits option.splits)

lemma process_file_level:
  "process_file e p out (s\<lparr>log_level := l\<rparr>) =
     (fst (process_file e p out s), (snd (process_file e p out s))\<lparr>log_level := l\<rparr>)"
proof -
  let ?s = "s\<lparr>calls := calls s @ [ProcessFile p]\<rparr>"
  obtain r s1 where g: "get_file_metadata e p ?s = (r, s1)"
    by (cases "get_file_metadata e p ?s")
  have "(s\<lparr>log_level := l\<rparr>)\<lparr>calls := calls (s\<lparr>log_level := l\<rparr>) @ [ProcessFile p]\<rparr> =
          ?s\<lparr>log_level := l\<rparr>"
    by simp
  then have "process_file e p out (s\<lparr>log_level := l\<rparr>) =
      (case get_file_metadata e p (?s\<lparr>log_level := l\<rparr>) of
         (Inl x, s1) \<Rightarrow> (Some x, s1)
       | (Inr metadata, s1) \<Rightarrow> emit e p out metadata s1)"
    by (simp only: process_file_def)
  also have "get_file_metadata e p (?s\<lparr>log_level := l\<rparr>) = (r, s1\<lparr>log_level := l\<rparr>)"
    using g by (simp add: get_file_metadata_level)
  finally show ?thesis using g
    by (cases r) (simp_all add: process_file_def emit_level)
qed

lemma for_files_level:
  "for_files e ps out (s\<lparr>log_level := l\<rparr>) =
     (fst (for_files e ps out s), (snd (for_files e ps out s))\<lparr>log_level := l\<rparr>)"
proof (induction ps arbitrary: s)
  case Nil
  then show ?case by simp
next
  case (Cons p ps)
  show ?case
  proof (cases "is_file e p")
    case (Inl err)
    then show ?thesis by simp
  next
    case (Inr b)
    show ?thesis
    proof (cases b)
      case False
      then show ?thesis using Inr Cons.IH by simp
    next
      case True
      obtain r s1 where r: "process_file e p out s = (r, s1)" by (cases "process_file e p out s")
      then have "process_file e p out (s\<lparr>log_level := l\<rparr>) = (r, s1\<lparr>log_level := l\<rparr>)"
        by (simp add: process_file_level)
      then show ?thesis using True Inr r Cons.IH [of s1] by (cases r) simp_all
    qed
  qed
qed

lemma for_loop_level:
  "for_loop e en out (s\<lparr>log_level := l\<rparr>) =
     (fst (for_loop e en out s), (snd (for_loop e en out s))\<lparr>log_level := l\<rparr>)"
  unfolding for_loop_def for_files_level
  by (simp split: prod.splits option.splits)

lemma except_OSError_level:
  "except_OSError d (r, s\<lparr>log_level := l\<rparr>) =
     (fst (except_OSError d (r, s)), (snd (except_OSError d (r, s)))\<lparr>log_level := l\<rparr>)"
  by (simp add: except_OSError_def logging_error_def split: option.splits exn.splits)

lemma process_directory_level:
  "process_directory e d rc out (s\<lparr>log_level := l\<rparr>) =
     (fst (process_directory e d rc out s), (snd (process_directory e d rc out s))\<lparr>log_level := l\<rparr>)"
proof -
  let ?s = "s\<lparr>calls := calls s @ [ProcessDirectory d]\<rparr>"
  let ?en = "if rc then rglob e d else iterdir e d"
  obtain r s1 where g: "for_loop e ?en out ?s = (r, s1)"
    by (cases "for_loop e ?en out ?s")
  have "(s\<lparr>log_level := l\<rparr>)\<lparr>calls := calls (s\<lparr>log_level := l\<rparr>) @ [ProcessDirectory d]\<rparr> =
          ?s\<lparr>log_level := l\<rparr>"
    by simp
  then have "process_directory e d rc out (s\<lparr>log_level := l\<rparr>) =
      except_OSError d (for_loop e ?en out (?s\<lparr>log_level := l\<rparr>))"
    by (simp only: process_directory_def)
  also have "for_loop e ?en out (?s\<lparr>log_level := l\<rparr>) = (r, s1\<lparr>log_level := l\<rparr>)"
    using g by (simp add: for_loop_level)
  finally show ?thesis using g
    by (simp add: process_directory_def except_OSError_level)
qed

lemma dispatch_level:
  "dispatch e p rc out (s\<lparr>log_level := l\<rparr>) =
     (fst (dispatch e p rc out s), (snd (dispatch e p rc out s))\<lparr>log_level := l\<rparr>)"
  by (simp add: dispatch_def process_file_level process_directory_level logging_error_def
           split: sum.splits)

lemma finally_close_level:
  "finally_close fo (r, s\<lparr>log_level := l\<rparr>) =
     (fst (finally_close fo (r, s)), (snd (finally_close fo (r, s)))\<lparr>log_level := l\<rparr>)"
  by (cases fo; simp add: finally_close_def; cases "the fo"; simp)

lemma output_name_verbose [simp]: "output_name (a\<lparr>arg_verbose := v\<rparr>) = output_name a"
  by (simp add: output_name_def)

lemma logging_error_level:
  "logging_error m (s\<lparr>log_level := l\<rparr>) = (logging_error m s)\<lparr>log_level := l\<rparr>"
  by (simp add: logging_error_def)

lemma open_w_level:
  "open_w e name (s\<lparr>log_level := l\<rparr>) =
     (fst (open_w e name s), (snd (open_w e name s))\<lparr>log_level := l\<rparr>)"
  by (simp add: open_w_def split: option.splits)

lemma main_level:
  "main e (a\<lparr>arg_verbose := True\<rparr>) =
     (fst (main e (a\<lparr>arg_verbose := False\<rparr>)), (snd (main e (a\<lparr>arg_verbose := False\<rparr>)))\<lparr>log_level := DEBUG\<rparr>)"
proof (cases "path_exists e (arg_path a)")
  case (Inl err)
  then show ?thesis by (simp add: main_def)
next
  case (Inr ex)
  show ?thesis
  proof (cases ex)
    case False
    then show ?thesis using Inr by (simp add: main_def logging_error_level)
  next
    case True
    show ?thesis
    proof (cases "output_name a")
      case None
      then show ?thesis using Inr True
        by (simp add: main_def dispatch_level finally_close_level)
    next
      case (Some name)
      obtain r s1 where o: "open_w e name init_state = (r, s1)"
        by (cases "open_w e name init_state")
      then have o': "open_w e name (init_state\<lparr>log_level := DEBUG\<rparr>) = (r, s1\<lparr>log_level := DEBUG\<rparr>)"
        by (simp add: open_w_level)
      show ?thesis using Inr True Some o o'
        by (cases r) (simp_all add: main_def logging_error_level dispatch_level finally_close_level)
    qed
  qed
qed


section \<open>The handle is left alone\<close>

text \<open>Nothing below \<^verbatim>\<open>main\<close> acquires or releases a handle.\<close>

lemma get_file_metadata_frame:
  "log_level (snd (get_file_metadata e p s)) = log_level s \<and>
   handle_events (snd (get_file_metadata e p s)) = handle_events s \<and>
   stdout (snd (get_file_metadata e p s)) = stdout s \<and>
   files (snd (get_file_metadata e p s)) = files s \<and>
   attempted (snd (get_file_metadata e p s)) = attempted s \<and>
   calls (snd (get_file_metadata e p s)) = calls s"
  by (simp add: get_file_metadata_def logging_error_def split: sum.splits exn.splits)

lemma emit_frame:
  "log_level (snd (emit e p out md s)) = log_level s \<and>
   handle_events (snd (emit e p out md s)) = handle_events s \<and>
   calls (snd (emit e p out md s)) = calls s"
proof (cases md)
  case None
  then show ?thesis by (simp add: emit_def logging_warning_def)
next
  case (Some m)
  show ?thesis
  proof (cases out)
    case None
    then show ?thesis using Some
      by (simp add: emit_def print_stdout_def Let_def split: option.splits)
  next
    case (Some f)
    then show ?thesis using \<open>md = Some m\<close>
      by (cases f) (simp add: emit_def logging_error_def Let_def split: option.splits)
  qed
qed

lemma process_file_frame:
  "log_level (snd (process_file e p out s)) = log_level s \<and>
   handle_events (snd (process_file e p out s)) = handle_events s \<and>
   calls (snd (process_file e p out s)) = calls s @ [ProcessFile p]"
proof -
  let ?s = "s\<lparr>calls := calls s @ [ProcessFile p]\<rparr>"
  obtain r s1 where g: "get_file_metadata e p ?s = (r, s1)"
    by (cases "get_file_metadata e p ?s")
  then have s1: "log_level s1 = log_level s \<and> handle_events s1 = handle_events s \<and>
                 calls s1 = calls s @ [ProcessFile p]"
    using get_file_metadata_frame [of e p ?s] by simp
  show ?thesis
  proof (cases r)
    case (Inl x)
    then show ?thesis using g s1 by (simp add: process_file_def)
  next
    case (Inr md)
    then show ?thesis using g s1 emit_frame [of e p out md s1] by (simp add: process_file_def)
  qed
qed

lemma for_files_frame:
  "log_level (snd (for_files e ps out s)) = log_level s \<and>
   handle_events (snd (for_files e ps out s)) = handle_events s"
proof (induction ps arbitrary: s)
  case Nil
  then show ?case by simp
next
  case (Cons p ps)
  show ?case
  proof (cases "is_file e p")
    case (Inl err)
    then show ?thesis by simp
  next
    case (Inr b)
    show ?thesis
    proof (cases b)
      case False
      then show ?thesis using Inr Cons.IH by simp
    next
      case True
      obtain r s1 where r: "process_file e p out s = (r, s1)" by (cases "process_file e p out s")
      then have "log_level s1 = log_level s \<and> handle_events s1 = handle_events s"
        using process_file_frame [of e p out s] by simp
      then show ?thesis using True Inr r Cons.IH [of s1] by (cases r) simp_all
    qed
  qed
qed

lemma process_directory_frame:
  "log_level (snd (process_directory e d rc out s)) = log_level s \<and>
   handle_events (snd (process_directory e d rc out s)) = handle_events s"
proof -
  let ?s = "s\<lparr>calls := calls s @ [ProcessDirectory d]\<rparr>"
  let ?ps = "fst (if rc then rglob e d else iterdir e d)"
  obtain r s1 where r: "for_files e ?ps out ?s = (r, s1)"
    by (cases "for_files e ?ps out ?s")
  then have "log_level s1 = log_level s \<and> handle_events s1 = handle_events s"
    using for_files_frame [of e ?ps out ?s] by simp
  then show ?thesis using r
    by (simp add: process_directory_def for_loop_def except_OSError_def logging_error_def
          split: option.splits exn.splits)
qed

lemma dispatch_frame:
  "log_level (snd (dispatch e p rc out s)) = log_level s \<and>
   handle_events (snd (dispatch e p rc out s)) = handle_events s"
  by (simp add: dispatch_def process_file_frame process_directory_frame logging_error_def
           split: sum.splits)

lemma main_handle_events:
  "handle_events (snd (main e a)) =
     (case output_name a of
        None \<Rightarrow> []
      | Some name \<Rightarrow>
          if path_exists e (arg_path a) = Inr True \<and> open_fault e name = None
          then [Acquired name, Released name] else [])"
proof (cases "path_exists e (arg_path a)")
  case (Inl err)
  then show ?thesis by (simp add: main_def Let_def init_state_def split: option.splits)
next
  case (Inr ex)
  show ?thesis
  proof (cases ex)
    case False
    then show ?thesis using Inr
      by (simp add: main_def Let_def logging_error_def init_state_def split: option.splits)
  next
    case True
    show ?thesis
    proof (cases "output_name a")
      case None
      then show ?thesis using Inr True
        by (simp add: main_def Let_def finally_close_def dispatch_frame init_state_def)
    next
      case (Some name)
      show ?thesis
      proof (cases "open_fault e name")
        case None
        then show ?thesis using Inr True Some
          by (simp add: main_def Let_def open_w_def finally_close_def dispatch_frame init_state_def)
      next
        case (Some x)
        then show ?thesis using Inr True \<open>output_name a = Some name\<close>
          by (simp add: main_def Let_def open_w_def logging_error_def init_state_def)
      qed
    qed
  qed
qed

lemma main_log_level:
  "log_level (snd (main e a)) = (if arg_verbose a then DEBUG else INFO)"
proof (cases "path_exists e (arg_path a)")
  case (Inl err)
  then show ?thesis by (simp add: main_def Let_def init_state_def)
next
  case (Inr ex)
  show ?thesis
  proof (cases ex)
    case False
    then show ?thesis using Inr by (simp add: main_def Let_def logging_error_def init_state_def)
  next
    case True
    show ?thesis
    proof (cases "output_name a")
      case None
      then show ?thesis using Inr True
        by (simp add: main_def Let_def finally_close_def dispatch_frame init_state_def)
    next
      case (Some name)
      show ?thesis
      proof (cases "open_fault e name")
        case None
        then show ?thesis using Inr True Some
          by (simp add: main_def Let_def open_w_def finally_close_def dispatch_frame init_state_def)
      next
        case (Some x)
        then show ?thesis using Inr True \<open>output_name a = Some name\<close>
          by (simp add: main_def Let_def open_w_def logging_error_def init_state_def)
      qed
    qed
  qed
qed

text \<open>
  C8 (verbose noninterference). For every environment and every command line, the run
  with \<^verbatim>\<open>-v\<close> and the run without it end the same way and leave the same standard output,
  the same files, the same writes handed to the sinks, the same logging calls, the same
  handle events and the same calls of \<^verbatim>\<open>process_file\<close> and \<^verbatim>\<open>process_directory\<close>; they
  differ in the level of the logger alone (\<open>DEBUG\<close> against \<open>INFO\<close>).
\<close>

theorem verbose_noninterference:
  "fst (main e (a\<lparr>arg_verbose := True\<rparr>)) = fst (main e (a\<lparr>arg_verbose := False\<rparr>)) \<and>
   stdout (snd (main e (a\<lparr>arg_verbose := True\<rparr>))) = stdout (snd (main e (a\<lparr>arg_verbose := False\<rparr>))) \<and>
   files (snd (main e (a\<lparr>arg_verbose := True\<rparr>))) = files (snd (main e (a\<lparr>arg_verbose := False\<rparr>))) \<and>
   attempted (snd (main e (a\<lparr>arg_verbose := True\<rparr>))) =
     attempted (snd (main e (a\<lparr>arg_verbose := False\<rparr>))) \<and>
   logged (snd (main e (a\<lparr>arg_verbose := True\<rparr>))) = logged (snd (main e (a\<lparr>arg_verbose := False\<rparr>))) \<and>
   handle_events (snd (main e (a\<lparr>arg_verbose := True\<rparr>))) =
     handle_events (snd (main e (a\<lparr>arg_verbose := False\<rparr>))) \<and>
   calls (snd (main e (a\<lparr>arg_verbose := True\<rparr>))) = calls (snd (main e (a\<lparr>arg_verbose := False\<rparr>))) \<and>
   log_level (snd (main e (a\<lparr>arg_verbose := True\<rparr>))) = DEBUG \<and>
   log_level (snd (main e (a\<lparr>arg_verbose := False\<rparr>))) = INFO"
proof -
  have "main e (a\<lparr>arg_verbose := True\<rparr>) =
          (fst (main e (a\<lparr>arg_verbose := False\<rparr>)),
           (snd (main e (a\<lparr>arg_verbose := False\<rparr>)))\<lparr>log_level := DEBUG\<rparr>)"
    by (rule main_level)
  moreover have "log_level (snd (main e (a\<lparr>arg_verbose := False\<rparr>))) = INFO"
    by (simp add: main_log_level)
  ultimately show ?thesis by simp
qed

text \<open>
  C9 (output-handle lifecycle). The handle events of a whole run are either none, or one
  acquisition followed by one release of the same file, and the second case is exactly
  the one where \<^verbatim>\<open>-o\<close> names a file, \<^verbatim>\<open>exists\<close> answers \<open>True\<close> for the root path and the file
  could be opened. The release is there whatever the processing did, an escaping
  exception included; the early returns of the input validation, and an exception of
  \<^verbatim>\<open>exists\<close> itself, happen before any handle exists.
\<close>

theorem output_handle_lifecycle:
  "handle_events (snd (main e a)) =
     (case output_name a of
        None \<Rightarrow> []
      | Some name \<Rightarrow>
          if path_exists e (arg_path a) = Inr True \<and> open_fault e name = None
          then [Acquired name, Released name] else [])"
  by (rule main_handle_events)


section \<open>Processing one file, and many\<close>

lemma process_file_failure:
  assumes "path_stat e p = Inl err"
  shows "process_file e p out s =
           (None, s\<lparr>logged := logged s @ [(ERROR, stat_failure_message p err),
                      (WARNING, ''Could not process file: '' @ path_str p)],
                    calls := calls s @ [ProcessFile p]\<rparr>)"
  using assms
  by (simp add: process_file_def get_file_metadata_def try_metadata_def emit_def
        is_FileNotFoundError_def stat_failure_message_def logging_error_def logging_warning_def)

lemma process_file_success:
  assumes "try_metadata e p = Inr md"
  shows "process_file e p out s =
           emit e p out (Some md) (s\<lparr>calls := calls s @ [ProcessFile p]\<rparr>)"
  using assms by (simp add: process_file_def get_file_metadata_def)

lemma process_file_crash:
  assumes "try_metadata e p = Inl (OtherException m)"
  shows "process_file e p out s =
           (Some (OtherException m), s\<lparr>calls := calls s @ [ProcessFile p]\<rparr>)"
  using assms by (simp add: process_file_def get_file_metadata_def)

lemma emit_attempted:
  "attempted (snd (emit e p out md s)) =
     attempted s @ (case md of None \<Rightarrow> [] | Some m \<Rightarrow> [output_string m])"
proof (cases md)
  case None
  then show ?thesis by (simp add: emit_def logging_warning_def)
next
  case (Some m)
  show ?thesis
  proof (cases out)
    case None
    then show ?thesis using Some
      by (simp add: emit_def print_stdout_def Let_def split: option.splits)
  next
    case (Some f)
    then show ?thesis using \<open>md = Some m\<close>
      by (cases f) (simp add: emit_def logging_error_def Let_def split: option.splits)
  qed
qed

lemma emit_accepted:
  assumes "write_fault e (length (attempted s)) = None"
  shows "fst (emit e p out md s) = None \<and>
         sink_content out (snd (emit e p out md s)) =
           sink_content out s @ (case md of None \<Rightarrow> [] | Some m \<Rightarrow> [output_string m])"
proof (cases md)
  case None
  then show ?thesis by (cases out; cases "the out") (simp_all add: emit_def logging_warning_def)
next
  case (Some m)
  show ?thesis
  proof (cases out)
    case None
    then show ?thesis using Some assms
      by (simp add: emit_def print_stdout_def Let_def)
  next
    case (Some f)
    then show ?thesis using \<open>md = Some m\<close> assms
      by (cases f) (simp add: emit_def Let_def split: option.splits)
  qed
qed

lemma get_file_metadata_result:
  "fst (get_file_metadata e p s) =
     (case try_metadata e p of
        Inr md \<Rightarrow> Inr (Some md)
      | Inl (OSErr err) \<Rightarrow> Inr None
      | Inl (OtherException m) \<Rightarrow> Inl (OtherException m))"
  by (simp add: get_file_metadata_def split: sum.splits exn.splits)

lemma process_file_attempted:
  "attempted (snd (process_file e p out s)) =
     attempted s @ (case line_of e p of None \<Rightarrow> [] | Some l \<Rightarrow> [l])"
proof -
  let ?s = "s\<lparr>calls := calls s @ [ProcessFile p]\<rparr>"
  obtain r s1 where g: "get_file_metadata e p ?s = (r, s1)"
    by (cases "get_file_metadata e p ?s")
  have s1: "attempted s1 = attempted s"
    using get_file_metadata_frame [of e p ?s] g by simp
  have r: "r = (case try_metadata e p of
        Inr md \<Rightarrow> Inr (Some md)
      | Inl (OSErr err) \<Rightarrow> Inr None
      | Inl (OtherException m) \<Rightarrow> Inl (OtherException m))"
    using get_file_metadata_result [of e p ?s] g by simp
  show ?thesis
  proof (cases "try_metadata e p")
    case (Inr md)
    then show ?thesis using g r s1 emit_attempted [of e p out "Some md" s1]
      by (simp add: process_file_def line_of_def)
  next
    case (Inl x)
    then show ?thesis using g r s1 emit_attempted [of e p out None s1]
      by (cases x) (simp_all add: process_file_def line_of_def)
  qed
qed

lemma process_file_accepted:
  assumes "write_fault e (length (attempted s)) = None"
    and "\<And>m. try_metadata e p \<noteq> Inl (OtherException m)"
  shows "fst (process_file e p out s) = None \<and>
         sink_content out (snd (process_file e p out s)) =
           sink_content out s @ (case line_of e p of None \<Rightarrow> [] | Some l \<Rightarrow> [l])"
proof -
  let ?s = "s\<lparr>calls := calls s @ [ProcessFile p]\<rparr>"
  obtain r s1 where g: "get_file_metadata e p ?s = (r, s1)"
    by (cases "get_file_metadata e p ?s")
  have s1: "attempted s1 = attempted s" "stdout s1 = stdout s" "files s1 = files s"
    using get_file_metadata_frame [of e p ?s] g by simp_all
  then have sc: "sink_content out s1 = sink_content out s"
    by (cases out; cases "the out") simp_all
  have w: "write_fault e (length (attempted s1)) = None" using assms(1) s1 by simp
  have r: "r = (case try_metadata e p of
        Inr md \<Rightarrow> Inr (Some md)
      | Inl (OSErr err) \<Rightarrow> Inr None
      | Inl (OtherException m) \<Rightarrow> Inl (OtherException m))"
    using get_file_metadata_result [of e p ?s] g by simp
  show ?thesis
  proof (cases "try_metadata e p")
    case (Inr md)
    then show ?thesis using g r sc emit_accepted [OF w, of p out "Some md"]
      by (simp add: process_file_def line_of_def)
  next
    case (Inl x)
    then show ?thesis using g r sc emit_accepted [OF w, of p out None] assms(2)
      by (cases x) (simp_all add: process_file_def line_of_def)
  qed
qed


lemma lines_of_Nil [simp]: "lines_of e [] = []"
  by (simp add: lines_of_def)

lemma regular_paths_Nil [simp]: "regular_paths e [] = []"
  by (simp add: regular_paths_def)

lemma regular_paths_Cons:
  "regular_paths e (p # ps) =
     (if is_file e p = Inr True then p # regular_paths e ps else regular_paths e ps)"
  by (simp add: regular_paths_def)


lemma is_file_answers_Cons:
  "is_file_answers e (p # ps) \<longleftrightarrow> (\<exists>b. is_file e p = Inr b) \<and> is_file_answers e ps"
  by (simp add: is_file_answers_def)



lemma for_files_returned:
  assumes "fst (for_files e ps out s) = None"
  shows "is_file_answers e ps \<and>
         calls (snd (for_files e ps out s)) = calls s @ map ProcessFile (regular_paths e ps)"
  using assms
proof (induction ps arbitrary: s)
  case Nil
  then show ?case by (simp add: is_file_answers_def)
next
  case (Cons p ps)
  show ?case
  proof (cases "is_file e p")
    case (Inl err)
    then show ?thesis using Cons.prems by simp
  next
    case (Inr b)
    have a: "is_file_answers e (p # ps) = is_file_answers e ps"
      using Inr by (auto simp: is_file_answers_Cons)
    show ?thesis
    proof (cases b)
      case False
      then show ?thesis using Inr Cons.IH [of s] Cons.prems
        by (simp add: regular_paths_Cons a)
    next
      case True
      obtain r s1 where r: "process_file e p out s = (r, s1)" by (cases "process_file e p out s")
      have c: "calls s1 = calls s @ [ProcessFile p]"
        using process_file_frame [of e p out s] r by simp
      show ?thesis
      proof (cases r)
        case None
        then show ?thesis using True Inr r c Cons.IH [of s1] Cons.prems
          by (simp add: regular_paths_Cons a)
      next
        case (Some x)
        then show ?thesis using True Inr r Cons.prems by simp
      qed
    qed
  qed
qed


lemma for_files_attempted:
  "set (attempted (snd (for_files e ps out s))) \<subseteq>
     set (attempted s) \<union> {l. \<exists>q. line_of e q = Some l}"
proof (induction ps arbitrary: s)
  case Nil
  then show ?case by simp
next
  case (Cons p ps)
  show ?case
  proof (cases "is_file e p")
    case (Inl err)
    then show ?thesis by simp
  next
    case (Inr b)
    show ?thesis
    proof (cases b)
      case False
      then show ?thesis using Inr Cons.IH by simp
    next
      case True
      obtain r s1 where r: "process_file e p out s = (r, s1)" by (cases "process_file e p out s")
      then have "attempted s1 = attempted s @ (case line_of e p of None \<Rightarrow> [] | Some l \<Rightarrow> [l])"
        using process_file_attempted [of e p out s] by simp
      then have s1: "set (attempted s1) \<subseteq> set (attempted s) \<union> {l. \<exists>q. line_of e q = Some l}"
        by (auto split: option.splits)
      show ?thesis
      proof (cases r)
        case None
        then show ?thesis using True Inr r s1 Cons.IH [of s1] by auto
      next
        case (Some x)
        then show ?thesis using True Inr r s1 by simp
      qed
    qed
  qed
qed

lemma process_directory_attempted:
  "set (attempted (snd (process_directory e d rc out s))) \<subseteq>
     set (attempted s) \<union> {l. \<exists>q. line_of e q = Some l}"
proof -
  let ?s = "s\<lparr>calls := calls s @ [ProcessDirectory d]\<rparr>"
  let ?ps = "fst (if rc then rglob e d else iterdir e d)"
  obtain r s1 where r: "for_files e ?ps out ?s = (r, s1)"
    by (cases "for_files e ?ps out ?s")
  then have "set (attempted s1) \<subseteq> set (attempted s) \<union> {l. \<exists>q. line_of e q = Some l}"
    using for_files_attempted [of e ?ps out ?s] by simp
  moreover have "attempted (snd (process_directory e d rc out s)) = attempted s1"
    using r
    by (simp add: process_directory_def for_loop_def except_OSError_def logging_error_def
          split: option.splits exn.splits)
  ultimately show ?thesis by simp
qed

lemma dispatch_attempted:
  "set (attempted (snd (dispatch e p rc out s))) \<subseteq>
     set (attempted s) \<union> {l. \<exists>q. line_of e q = Some l}"
proof -
  have "set (attempted (snd (process_file e p out s))) \<subseteq>
          set (attempted s) \<union> {l. \<exists>q. line_of e q = Some l}"
    by (auto simp: process_file_attempted split: option.splits)
  then show ?thesis
    using process_directory_attempted [of e p rc out s]
    by (simp add: dispatch_def logging_error_def split: sum.splits)
qed

lemma dispatch_attempted_fresh:
  assumes "attempted s = []"
  shows "set (attempted (snd (dispatch e p rc out s))) \<subseteq> {l. \<exists>q. line_of e q = Some l}"
  using dispatch_attempted [of e p rc out s] assms by simp

lemma finally_close_attempted [simp]:
  "attempted (snd (finally_close fo r)) = attempted (snd r)"
  by (cases fo; cases "the fo") (simp_all add: finally_close_def)

lemma main_attempted:
  "set (attempted (snd (main e a))) \<subseteq> {l. \<exists>q. line_of e q = Some l}"
proof (cases "path_exists e (arg_path a)")
  case (Inl err)
  then show ?thesis by (simp add: main_def Let_def init_state_def)
next
  case (Inr ex)
  show ?thesis
  proof (cases ex)
    case False
    then show ?thesis using Inr by (simp add: main_def Let_def logging_error_def init_state_def)
  next
    case True
    show ?thesis
    proof (cases "output_name a")
      case None
      then show ?thesis using Inr True
        by (simp add: main_def Let_def init_state_def dispatch_attempted_fresh)
    next
      case (Some name)
      show ?thesis
      proof (cases "open_fault e name")
        case None
        then show ?thesis using Inr True Some
          by (simp add: main_def Let_def open_w_def init_state_def dispatch_attempted_fresh)
      next
        case (Some x)
        then show ?thesis using Inr True \<open>output_name a = Some name\<close>
          by (simp add: main_def Let_def open_w_def logging_error_def init_state_def)
      qed
    qed
  qed
qed

lemma output_string_join:
  "output_string md =
     join '','' [modified_time md, accessed_time md, created_time md, file_path md, file_name md,
               str_nat (file_size md), permissions md, str_nat (owner_uid md),
               str_nat (owner_gid md)] @ [CHR 0x0A]"
  by (simp add: output_string_def)

text \<open>
  C3 (serialisation format). When the status of a path is obtained and the record is
  built, \<^verbatim>\<open>process_file\<close> hands exactly one string to the sink: the nine fields
  \<^verbatim>\<open>modified_time\<close>, \<^verbatim>\<open>accessed_time\<close>, \<^verbatim>\<open>created_time\<close>, \<^verbatim>\<open>file_path\<close>, \<^verbatim>\<open>file_name\<close>,
  \<^verbatim>\<open>file_size\<close>, \<^verbatim>\<open>permissions\<close>, \<^verbatim>\<open>owner_uid\<close>, \<^verbatim>\<open>owner_gid\<close> joined by commas in this
  order and ended by a newline; when the sink accepts the write, its content grows by
  exactly that line. Every string a whole run hands to a sink is the line of some path:
  there is no header row.
\<close>

theorem serialization_format:
  assumes "path_stat e p = Inr st" and "build_metadata e p st = Inr md"
  shows "attempted (snd (process_file e p out s)) = attempted s @ [output_string md] \<and>
         output_string md =
           join '','' [modified_time md, accessed_time md, created_time md, file_path md,
                     file_name md, str_nat (file_size md), permissions md,
                     str_nat (owner_uid md), str_nat (owner_gid md)] @ [CHR 0x0A] \<and>
         (write_fault e (length (attempted s)) = None \<longrightarrow>
            sink_content out (snd (process_file e p out s)) = sink_content out s @ [output_string md]) \<and>
         (\<forall>l \<in> set (attempted (snd (main e a))). \<exists>q. line_of e q = Some l)"
proof -
  have t: "try_metadata e p = Inr md"
    using assms by (simp add: try_metadata_def)
  then have l: "line_of e p = Some (output_string md)"
    by (simp add: line_of_def)
  have "attempted (snd (process_file e p out s)) = attempted s @ [output_string md]"
    by (simp add: process_file_attempted l)
  moreover have "write_fault e (length (attempted s)) = None \<longrightarrow>
      sink_content out (snd (process_file e p out s)) = sink_content out s @ [output_string md]"
    using process_file_accepted [of e s p out] t by (simp add: l)
  moreover have "\<forall>l \<in> set (attempted (snd (main e a))). \<exists>q. line_of e q = Some l"
    using main_attempted [of e a] by blast
  ultimately show ?thesis using output_string_join [of md] by blast
qed


section \<open>The sample runs, evaluated\<close>

lemmas sample_defs =
  sample_env_def sample_tree_def sample_dir_def sample_entries_def guarded_dir_def reg_stat_def
  dir_stat_def
  lnk_stat_def fifo_stat_def

lemma sample_iterdir:
  "iterdir sample_env [''d''] =
     ([[''d'', ''a.txt''], [''d'', ''sub''], [''d'', ''locked''], [''d'', ''b,c.txt''],
       [''d'', ''ln''], [''d'', ''dead''], [''d'', ''gone.txt''], [''d'', ''pipe'']], None)"
  "iterdir sample_env [''g''] = ([[''g'', ''a.txt''], [''g'', ''vault''], [''g'', ''z.txt'']], None)"
  by (simp_all add: iterdir_def sample_defs)

lemma sample_is_dir:
  "is_dir sample_env [''d''] = Inr True"
  "is_file sample_env [''d''] = Inr False"
  "is_dir sample_env [''g''] = Inr True"
  "is_file sample_env [''g''] = Inr False"
  "is_dir sample_env [''d'', ''pipe''] = Inr False"
  by (simp_all add: is_dir_def is_file_def fs_stat_def S_ISDIR_def S_ISREG_def sample_defs)

lemma sample_rglob:
  "rglob sample_env [''d''] =
     ([[''d'', ''a.txt''], [''d'', ''sub''], [''d'', ''locked''], [''d'', ''b,c.txt''],
       [''d'', ''ln''], [''d'', ''dead''], [''d'', ''gone.txt''], [''d'', ''pipe''],
       [''d'', ''sub'', ''c.txt'']], None)"
  "rglob sample_env [''g''] = ([[''g'', ''a.txt''], [''g'', ''vault''], [''g'', ''z.txt'']], None)"
  by (simp_all add: rglob_def sample_is_dir) (simp_all add: sample_defs)

lemma sample_is_file:
  "is_file sample_env [''d'', ''a.txt''] = Inr True"
  "is_file sample_env [''d'', ''sub''] = Inr False"
  "is_file sample_env [''d'', ''locked''] = Inr False"
  "is_file sample_env [''d'', ''b,c.txt''] = Inr True"
  "is_file sample_env [''d'', ''ln''] = Inr True"
  "is_file sample_env [''d'', ''dead''] = Inr False"
  "is_file sample_env [''d'', ''gone.txt''] = Inr True"
  "is_file sample_env [''d'', ''pipe''] = Inr False"
  "is_file sample_env [''d'', ''sub'', ''c.txt''] = Inr True"
  "is_file sample_env [''g'', ''a.txt''] = Inr True"
  "is_file sample_env [''g'', ''vault''] = Inl (OSError EACCES ''[Errno 13] Permission denied'')"
  "is_file sample_env [''g'', ''z.txt''] = Inr True"
  by (simp_all add: is_file_def fs_stat_def S_ISREG_def ignore_error_def sample_defs)

lemma sample_exists:
  "path_exists sample_env [''d''] = Inr True"
  "path_exists sample_env [''d'', ''a.txt''] = Inr True"
  "path_exists sample_env [''d'', ''pipe''] = Inr True"
  "path_exists sample_env [''nope''] = Inr False"
  "path_exists sample_env [''g'', ''vault''] = Inl (OSError EACCES ''[Errno 13] Permission denied'')"
  by (simp_all add: path_exists_def fs_stat_def ignore_error_def sample_defs)



lemma sample_gone:
  "path_stat sample_env [''d'', ''gone.txt''] =
     Inl (OSError ENOENT ''[Errno 2] No such file or directory'')"
  by (simp add: path_stat_def sample_env_def)

lemma sample_vault:
  "path_stat sample_env [''g'', ''vault''] =
     Inl (OSError EACCES ''[Errno 13] Permission denied'')"
  by (simp add: path_stat_def fs_stat_def sample_defs)

lemma sample_iso:
  "isoformat (sample_time 1700000000) = ''2023-11-14T22:13:20''"
  "isoformat (sample_time 1700000100) = ''2023-11-14T22:15:00.250000''"
  "isoformat (sample_time 1700000200) = ''2023-11-14T22:15:00.250000''"
  by (simp_all add: isoformat_def sample_time_def zfill_def str_nat.simps digit_def)

lemmas line_defs =
  line_of_def try_metadata_def path_stat_def fs_stat_def output_string_def build_metadata_def
  path_str_def path_name_def filemode_def has_bits_def str_nat.simps digit_def

lemma sample_line_a:
  "line_of sample_env [''d'', ''a.txt''] =
     Some (''2023-11-14T22:13:20,2023-11-14T22:15:00.250000,2023-11-14T22:15:00.250000,'' @
           ''d/a.txt,a.txt,12,-rw-r--r--,1000,100'' @ [CHR 0x0A])"
  by (simp add: line_defs sample_defs sample_iso)

lemma sample_line_bc:
  "line_of sample_env [''d'', ''b,c.txt''] =
     Some (''2023-11-14T22:13:20,2023-11-14T22:15:00.250000,2023-11-14T22:15:00.250000,'' @
           ''d/b,c.txt,b,c.txt,0,-rw-r--r--,1000,100'' @ [CHR 0x0A])"
  by (simp add: line_defs sample_defs sample_iso)

lemma sample_line_ln:
  "line_of sample_env [''d'', ''ln''] =
     Some (''2023-11-14T22:13:20,2023-11-14T22:15:00.250000,2023-11-14T22:15:00.250000,'' @
           ''d/ln,ln,99,-rw-r--r--,1000,100'' @ [CHR 0x0A])"
  by (simp add: line_defs sample_defs sample_iso)


lemma sample_line_ga:
  "line_of sample_env [''g'', ''a.txt''] =
     Some (''2023-11-14T22:13:20,2023-11-14T22:15:00.250000,2023-11-14T22:15:00.250000,'' @
           ''g/a.txt,a.txt,12,-rw-r--r--,1000,100'' @ [CHR 0x0A])"
  by (simp add: line_defs sample_defs sample_iso)

lemma sample_line_gz:
  "line_of sample_env [''g'', ''z.txt''] =
     Some (''2023-11-14T22:13:20,2023-11-14T22:15:00.250000,2023-11-14T22:15:00.250000,'' @
           ''g/z.txt,z.txt,5,-rw-r--r--,1000,100'' @ [CHR 0x0A])"
  by (simp add: line_defs sample_defs sample_iso)



lemma process_file_line:
  assumes "line_of e p = Some l"
  shows "process_file e p out s =
           (case out of
              None \<Rightarrow> print_stdout e l (s\<lparr>calls := calls s @ [ProcessFile p]\<rparr>)
            | Some f \<Rightarrow>
                (case file_write e f l (s\<lparr>calls := calls s @ [ProcessFile p]\<rparr>) of
                   (Some x, s2) \<Rightarrow>
                     (None, logging_error (''Error writing to output file: '' @ exn_str x) s2)
                 | (None, s2) \<Rightarrow> (None, s2)))"
proof -
  obtain md where "try_metadata e p = Inr md" and "output_string md = l"
    using assms by (auto simp: line_of_def split: sum.splits)
  then show ?thesis by (cases out) (simp_all add: process_file_success emit_def)
qed

lemma sample_stat_a: "path_stat sample_env [''d'', ''a.txt''] = Inr (reg_stat 12)"
  by (simp add: path_stat_def fs_stat_def sample_defs)

lemma sample_build_a:
  "build_metadata sample_env [''d'', ''a.txt''] (reg_stat 12) =
     Inr \<lparr>file_path = ''d/a.txt'', file_name = ''a.txt'', file_size = 12,
          modified_time = ''2023-11-14T22:13:20'',
          accessed_time = ''2023-11-14T22:15:00.250000'',
          created_time = ''2023-11-14T22:15:00.250000'',
          permissions = ''-rw-r--r--'', owner_uid = 1000, owner_gid = 100\<rparr>"
  by (simp add: build_metadata_def path_str_def path_name_def filemode_def has_bits_def
        sample_env_def reg_stat_def sample_iso)

text \<open>
  The record of \<^verbatim>\<open>d/a.txt\<close> in the sample file system.
\<close>

theorem serialization_format_witness:
  "path_stat sample_env [''d'', ''a.txt''] = Inr (reg_stat 12) \<and>
   write_fault sample_env 0 = None \<and>
   attempted (snd (process_file sample_env [''d'', ''a.txt''] None init_state)) =
     [''2023-11-14T22:13:20,2023-11-14T22:15:00.250000,2023-11-14T22:15:00.250000,'' @
      ''d/a.txt,a.txt,12,-rw-r--r--,1000,100'' @ [CHR 0x0A]] \<and>
   stdout (snd (process_file sample_env [''d'', ''a.txt''] None init_state)) =
     [''2023-11-14T22:13:20,2023-11-14T22:15:00.250000,2023-11-14T22:15:00.250000,'' @
      ''d/a.txt,a.txt,12,-rw-r--r--,1000,100'' @ [CHR 0x0A]]"
proof -
  have w: "write_fault sample_env 0 = None" by (simp add: sample_env_def)
  show ?thesis
    using serialization_format [OF sample_stat_a sample_build_a, of None init_state sample_args] w
    by (simp add: sample_stat_a init_state_def output_string_def str_nat.simps digit_def)
qed


section \<open>A sink that fails, an entry that cannot be inspected\<close>

lemma failing_fs:
  "fs failing_env = fs sample_env"
  "at_inspection failing_env = at_inspection sample_env"
  "fromtimestamp failing_env = fromtimestamp sample_env"
  by (simp_all add: failing_env_def)

lemma failing_is_file: "is_file failing_env p = is_file sample_env p"
  by (simp add: is_file_def failing_fs)

lemma failing_is_dir: "is_dir failing_env p = is_dir sample_env p"
  by (simp add: is_dir_def failing_fs)

lemma failing_path_stat: "path_stat failing_env p = path_stat sample_env p"
  by (simp add: path_stat_def failing_fs split: option.splits)

lemma failing_build: "build_metadata failing_env p st = build_metadata sample_env p st"
  by (simp add: build_metadata_def failing_fs split: sum.splits)

lemma failing_try: "try_metadata failing_env p = try_metadata sample_env p"
  by (simp add: try_metadata_def failing_path_stat failing_build split: sum.splits)

lemma failing_line_of: "line_of failing_env p = line_of sample_env p"
  by (simp add: line_of_def failing_try)

lemma failing_iterdir: "iterdir failing_env p = iterdir sample_env p"
  by (simp add: iterdir_def failing_fs)

lemma failing_exists: "path_exists failing_env p = path_exists sample_env p"
  by (simp add: path_exists_def failing_fs)

lemma failing_gone:
  "path_stat failing_env [''d'', ''gone.txt''] =
     Inl (OSError ENOENT ''[Errno 2] No such file or directory'')"
  using sample_gone by (simp add: failing_path_stat)

lemma failing_fault:
  "write_fault failing_env 0 = Some broken_pipe"
  "write_fault failing_env (Suc n) = None"
  by (simp_all add: failing_env_def)

lemmas failing_process =
  process_file_line [of failing_env, OF trans [OF failing_line_of sample_line_a]]
  process_file_line [of failing_env, OF trans [OF failing_line_of sample_line_bc]]
  process_file_line [of failing_env, OF trans [OF failing_line_of sample_line_ln]]
  process_file_failure [OF failing_gone]

text \<open>
  C6 (write failures are logged and do not stop the run). The claim holds for a file sink
  and fails for standard output: \<^verbatim>\<open>output_file.write\<close> sits in a \<^verbatim>\<open>try\<close> whose handler logs
  the error, \<^verbatim>\<open>print\<close> sits outside any. The sample directory is processed with a sink
  that refuses the first write (a broken pipe). On standard output the exception leaves
  \<^verbatim>\<open>process_file\<close>; \<^verbatim>\<open>process_directory\<close> takes it for a directory error, logs it as one
  and stops: the remaining files are never handed to the sink. With a single file as the
  root the exception leaves \<^verbatim>\<open>main\<close>. On a file sink the same failure is logged as a write
  error, that record is dropped and the other records are written.
\<close>

theorem stdout_write_failure_ends_run:
  "process_directory failing_env [''d''] False None init_state =
     (None,
      init_state
        \<lparr>logged := [(ERROR, ''Error accessing directory d: [Errno 32] Broken pipe'')],
         attempted :=
           [''2023-11-14T22:13:20,2023-11-14T22:15:00.250000,2023-11-14T22:15:00.250000,'' @
            ''d/a.txt,a.txt,12,-rw-r--r--,1000,100'' @ [CHR 0x0A]],
         calls := [ProcessDirectory [''d''], ProcessFile [''d'', ''a.txt'']]\<rparr>) \<and>
   fst (main failing_env (sample_args\<lparr>arg_path := [''d'', ''a.txt'']\<rparr>)) = Crashed broken_pipe \<and>
   fst (process_directory failing_env [''d''] False (Some (TextIOWrapper ''out.csv'')) init_state) =
     None \<and>
   files (snd (process_directory failing_env [''d''] False (Some (TextIOWrapper ''out.csv''))
                 init_state)) ''out.csv'' =
     Some [''2023-11-14T22:13:20,2023-11-14T22:15:00.250000,2023-11-14T22:15:00.250000,'' @
           ''d/b,c.txt,b,c.txt,0,-rw-r--r--,1000,100'' @ [CHR 0x0A],
           ''2023-11-14T22:13:20,2023-11-14T22:15:00.250000,2023-11-14T22:15:00.250000,'' @
           ''d/ln,ln,99,-rw-r--r--,1000,100'' @ [CHR 0x0A]] \<and>
   logged (snd (process_directory failing_env [''d''] False (Some (TextIOWrapper ''out.csv''))
                  init_state)) =
     [(ERROR, ''Error writing to output file: [Errno 32] Broken pipe''),
      (ERROR, ''File not found: d/gone.txt''),
      (WARNING, ''Could not process file: d/gone.txt'')]"
  by (simp add: process_directory_def for_loop_def except_OSError_def failing_iterdir
        sample_iterdir failing_is_file sample_is_file failing_process print_stdout_def
        failing_fault Let_def init_state_def logging_error_def broken_pipe_def path_str_def
        main_def failing_exists sample_exists sample_args_def output_name_def dispatch_def
        finally_close_def stat_failure_message_def)

lemma sample_fault: "write_fault sample_env n = None"
  by (simp add: sample_env_def)

lemmas sample_process =
  process_file_line [OF sample_line_ga]
  process_file_line [OF sample_line_gz]
  process_file_failure [OF sample_vault]

text \<open>
  C1 (per-item failure tolerance). The claim fails on a directory that holds an entry
  whose status cannot be obtained for a reason pathlib does not ignore. Directory \<^verbatim>\<open>g\<close>
  holds \<^verbatim>\<open>a.txt\<close>, then \<^verbatim>\<open>vault\<close> (asking for its status raises \<^verbatim>\<open>PermissionError\<close>), then the
  regular and readable \<^verbatim>\<open>z.txt\<close>. The loop asks \<^verbatim>\<open>is_file\<close> before it calls \<^verbatim>\<open>process_file\<close>,
  and \<^verbatim>\<open>is_file\<close> raises on \<^verbatim>\<open>vault\<close>: the handler of \<^verbatim>\<open>process_directory\<close> takes the
  exception for a directory error, logs it as one and the traversal is over. \<^verbatim>\<open>z.txt\<close> is
  never processed and gets no record, flat or recursive. \<^verbatim>\<open>process_file\<close> itself, called on
  \<^verbatim>\<open>vault\<close>, does what the claim says: the failure is logged, nothing is written and the
  function returns.
\<close>

theorem unreadable_entry_ends_traversal:
  "is_file sample_env [''g'', ''z.txt''] = Inr True \<and>
   line_of sample_env [''g'', ''z.txt''] =
     Some (''2023-11-14T22:13:20,2023-11-14T22:15:00.250000,2023-11-14T22:15:00.250000,'' @
           ''g/z.txt,z.txt,5,-rw-r--r--,1000,100'' @ [CHR 0x0A]) \<and>
   process_directory sample_env [''g''] False None init_state =
     (None,
      init_state
        \<lparr>logged := [(ERROR, ''Error accessing directory g: [Errno 13] Permission denied'')],
         stdout :=
           [''2023-11-14T22:13:20,2023-11-14T22:15:00.250000,2023-11-14T22:15:00.250000,'' @
            ''g/a.txt,a.txt,12,-rw-r--r--,1000,100'' @ [CHR 0x0A]],
         attempted :=
           [''2023-11-14T22:13:20,2023-11-14T22:15:00.250000,2023-11-14T22:15:00.250000,'' @
            ''g/a.txt,a.txt,12,-rw-r--r--,1000,100'' @ [CHR 0x0A]],
         calls := [ProcessDirectory [''g''], ProcessFile [''g'', ''a.txt'']]\<rparr>) \<and>
   process_directory sample_env [''g''] True None init_state =
     process_directory sample_env [''g''] False None init_state \<and>
   process_file sample_env [''g'', ''vault''] None init_state =
     (None,
      init_state
        \<lparr>logged := [(ERROR, ''Error accessing file g/vault: [Errno 13] Permission denied''),
                    (WARNING, ''Could not process file: g/vault'')],
         calls := [ProcessFile [''g'', ''vault'']]\<rparr>)"
  by (simp add: process_directory_def for_loop_def except_OSError_def sample_iterdir sample_rglob
        sample_is_file sample_process sample_line_gz print_stdout_def sample_fault
        Let_def init_state_def logging_error_def path_str_def stat_failure_message_def)


section \<open>The validation of the input\<close>





lemma logging_error_sink [simp]:
  "sink_content out (logging_error m s) = sink_content out s"
  by (cases out; cases "the out") (simp_all add: logging_error_def)

lemma logging_error_calls [simp]: "calls (logging_error m s) = calls s"
  by (simp add: logging_error_def)

lemma calls_update_sink [simp]:
  "sink_content out (s\<lparr>calls := c\<rparr>) = sink_content out s"
  by (cases out; cases "the out") simp_all


lemma finally_close_calls [simp]:
  "calls (snd (finally_close fo r)) = calls (snd r)"
  by (cases fo; cases "the fo") (simp_all add: finally_close_def)

lemma finally_close_sink [simp]:
  "sink_content out (snd (finally_close fo r)) = sink_content out (snd r)"
  by (cases fo; cases "the fo"; cases out; cases "the out") (simp_all add: finally_close_def)

lemma finally_close_fst [simp]:
  "fst (finally_close fo r) = (case fst r of None \<Rightarrow> Completed | Some x \<Rightarrow> Crashed x)"
  by (simp add: finally_close_def)





lemma finally_close_other [simp]:
  "stdout (snd (finally_close fo r)) = stdout (snd r)"
  "files (snd (finally_close fo r)) = files (snd r)"
  "logged (snd (finally_close fo r)) = logged (snd r)"
  by (cases fo; cases "the fo"; simp add: finally_close_def)+




















section \<open>Enumerating a tree\<close>


































section \<open>Directories that cannot be listed\<close>











section \<open>Symbolic links\<close>








end
